theory Spec2Isabelle
  imports Main
begin

section \<open>Errors raised by the serializers\<close>

text \<open>
  \<open>rest_framework.exceptions.ValidationError\<close> carries its message; it is answered with
  HTTP 400. \<open>InsufficientStorage\<close> is the storage failure that the protocol layer answers
  with HTTP 507.
\<close>

datatype error = ValidationError string | InsufficientStorage string


section \<open>Access levels of team-owned resources (\<open>WithTeamMixin\<close>)\<close>

text \<open>
  Modelled from the spec: the enumeration \<open>UserLevel\<close> is declared in the models module,
  which the serializers import. The spec gives it as the ordered enumeration
  ANONYMOUS < LAB_MEMBER < TEAM_MEMBER < TEAM_ADMIN < LAB_ADMIN; \<open>UserLevel_value\<close> is the
  \<open>.value\<close> of a member, an integer that the serializer compares with \<open><\<close> and \<open>>\<close>.
\<close>

datatype UserLevel = ANONYMOUS | LAB_MEMBER | TEAM_MEMBER | TEAM_ADMIN | LAB_ADMIN

fun UserLevel_value :: "UserLevel \<Rightarrow> int" where
  "UserLevel_value ANONYMOUS = 0"
| "UserLevel_value LAB_MEMBER = 1"
| "UserLevel_value TEAM_MEMBER = 2"
| "UserLevel_value TEAM_ADMIN = 3"
| "UserLevel_value LAB_ADMIN = 4"

text \<open>The three thresholds every team-owned resource stores.\<close>

record resource =
  read_access_level :: int
  edit_access_level :: int
  delete_access_level :: int

text \<open>
  \<open>attrs\<close> is the dictionary of validated fields; only its access-level keys matter here.
  A key that is absent maps to \<open>None\<close>.
\<close>

type_synonym attrs = "string \<rightharpoonup> int"

definition getattr :: "resource \<Rightarrow> string \<Rightarrow> int" where
  "getattr inst level =
     (if level = ''read_access_level'' then read_access_level inst
      else if level = ''edit_access_level'' then edit_access_level inst
      else delete_access_level inst)"

definition level_names :: "string list" where
  "level_names = [''read_access_level'', ''edit_access_level'', ''delete_access_level'']"

text \<open>
  \<open>WithTeamMixin\<close> declares \<open>default=UserLevel.LAB_MEMBER.value\<close> for the read level and
  \<open>default=UserLevel.TEAM_MEMBER.value\<close> for the edit and the delete level.
\<close>

definition field_default :: "string \<Rightarrow> int option" where
  "field_default level =
     (if level = ''read_access_level'' then Some (UserLevel_value LAB_MEMBER)
      else if level = ''edit_access_level'' then Some (UserLevel_value TEAM_MEMBER)
      else if level = ''delete_access_level'' then Some (UserLevel_value TEAM_MEMBER)
      else None)"



text \<open>
  The validated fields of a create: a level missing from the request enters \<open>attrs\<close> with
  the default its field declares, and stays absent when the serializer has no such field
  or the field has no default. \<open>declared\<close> is the table of the serializer's defaults.
\<close>

definition with_field_defaults :: "(string \<Rightarrow> int option) \<Rightarrow> attrs \<Rightarrow> attrs" where
  "with_field_defaults declared data =
     (\<lambda>k. case data k of Some v \<Rightarrow> Some v | None \<Rightarrow> declared k)"

text \<open>
  \<open>for level in [...]: if level in attrs and getattr(self.instance, level) == attrs[level]:
  del attrs[level]\<close>
\<close>

fun remove_unchanged :: "resource \<Rightarrow> string list \<Rightarrow> attrs \<Rightarrow> attrs" where
  "remove_unchanged inst [] attrs = attrs"
| "remove_unchanged inst (level # levels) attrs =
     remove_unchanged inst levels
       (if attrs level = Some (getattr inst level) then attrs(level := None) else attrs)"

text \<open>
  \<open>for access_level in ['read_access_level', 'edit_access_level']: if access_level in attrs:
  if getattr(self.instance, access_level) > user_access_level: raise ...\<close>
\<close>

fun level_too_low :: "resource \<Rightarrow> int \<Rightarrow> attrs \<Rightarrow> string list \<Rightarrow> error option" where
  "level_too_low inst user_access_level attrs [] = None"
| "level_too_low inst user_access_level attrs (access_level # rest) =
     (if attrs access_level \<noteq> None \<and> getattr inst access_level > user_access_level
      then Some (ValidationError
             (''You may not change '' @ access_level @ '' because your access level is too low''))
      else level_too_low inst user_access_level attrs rest)"

definition delete_change_error :: "int \<Rightarrow> attrs \<Rightarrow> error option" where
  "delete_change_error user_access_level attrs =
     (if attrs ''delete_access_level'' \<noteq> None
         \<and> user_access_level < UserLevel_value TEAM_ADMIN
      then Some (ValidationError
             ''You may only change delete access levels if you are a team admin'')
      else None)"

text \<open>The permission checks of \<open>validate\<close>, made when \<open>self.instance is not None\<close>.\<close>

definition access_change_error :: "resource \<Rightarrow> int \<Rightarrow> attrs \<Rightarrow> error option" where
  "access_change_error inst user_access_level attrs =
     (if attrs ''read_access_level'' \<noteq> None \<or> attrs ''edit_access_level'' \<noteq> None
      then
        (if user_access_level < UserLevel_value TEAM_MEMBER
         then Some (ValidationError
                ''You may only change access levels if you are a team member'')
         else
           (case level_too_low inst user_access_level attrs
                   [''read_access_level'', ''edit_access_level''] of
              Some e \<Rightarrow> Some e
            | None \<Rightarrow> delete_change_error user_access_level attrs))
      else delete_change_error user_access_level attrs)"

text \<open>The two hierarchy checks at the end of \<open>validate\<close>.\<close>

definition read_above_edit :: "resource option \<Rightarrow> attrs \<Rightarrow> error option" where
  "read_above_edit self_instance attrs =
     (case attrs ''read_access_level'' of
        None \<Rightarrow> None
      | Some r \<Rightarrow>
          (let edit_level =
                 (case attrs ''edit_access_level'' of
                    Some e \<Rightarrow> e
                  | None \<Rightarrow>
                      (case self_instance of
                         Some inst \<Rightarrow> edit_access_level inst
                       | None \<Rightarrow> UserLevel_value TEAM_ADMIN))
           in if r > edit_level
              then Some (ValidationError
                     ''Read access level must be less than or equal to edit access level'')
              else None))"

definition edit_above_delete :: "resource option \<Rightarrow> attrs \<Rightarrow> error option" where
  "edit_above_delete self_instance attrs =
     (case attrs ''edit_access_level'' of
        None \<Rightarrow> None
      | Some e \<Rightarrow>
          (let delete_level =
                 (case attrs ''delete_access_level'' of
                    Some d \<Rightarrow> d
                  | None \<Rightarrow>
                      (case self_instance of
                         Some inst \<Rightarrow> delete_access_level inst
                       | None \<Rightarrow> UserLevel_value TEAM_ADMIN))
           in if e > delete_level
              then Some (ValidationError
                     ''Edit access level must be less than or equal to delete access level'')
              else None))"

text \<open>
  \<open>WithTeamMixin.validate\<close>. \<open>self_instance\<close> is \<open>self.instance\<close> (\<open>None\<close> on a create);
  \<open>user_access_level\<close> is \<open>self.instance.get_user_level(request)\<close>, read only on an update.
\<close>

definition WithTeamMixin_validate :: "resource option \<Rightarrow> int \<Rightarrow> attrs \<Rightarrow> error + attrs" where
  "WithTeamMixin_validate self_instance user_access_level attrs0 =
     (let attrs = (case self_instance of
                     None \<Rightarrow> attrs0
                   | Some inst \<Rightarrow> remove_unchanged inst level_names attrs0)
      in case (case self_instance of
                 None \<Rightarrow> None
               | Some inst \<Rightarrow> access_change_error inst user_access_level attrs) of
           Some e \<Rightarrow> Inl e
         | None \<Rightarrow>
             (case read_above_edit self_instance attrs of
                Some e \<Rightarrow> Inl e
              | None \<Rightarrow>
                  (case edit_above_delete self_instance attrs of
                     Some e \<Rightarrow> Inl e
                   | None \<Rightarrow> Inr attrs)))"

text \<open>
  Saving validated data: the framework's \<open>ModelSerializer\<close> sets every validated field on
  the row (\<open>setattr(instance, attr, value)\<close>) and leaves the others as they are. On a
  create the row starts from the model's field defaults, which are declared in the
  models module: \<open>model_defaults\<close> is a parameter.
\<close>

definition setattrs :: "resource \<Rightarrow> attrs \<Rightarrow> resource" where
  "setattrs inst attrs =
     \<lparr> read_access_level =
         (case attrs ''read_access_level'' of Some v \<Rightarrow> v | None \<Rightarrow> read_access_level inst),
       edit_access_level =
         (case attrs ''edit_access_level'' of Some v \<Rightarrow> v | None \<Rightarrow> edit_access_level inst),
       delete_access_level =
         (case attrs ''delete_access_level'' of Some v \<Rightarrow> v | None \<Rightarrow> delete_access_level inst) \<rparr>"

definition serializer_update :: "resource \<Rightarrow> int \<Rightarrow> attrs \<Rightarrow> error + resource" where
  "serializer_update inst user_access_level data =
     (case WithTeamMixin_validate (Some inst) user_access_level data of
        Inl e \<Rightarrow> Inl e
      | Inr attrs \<Rightarrow> Inr (setattrs inst attrs))"

definition serializer_create ::
    "(string \<Rightarrow> int option) \<Rightarrow> resource \<Rightarrow> attrs \<Rightarrow> error + resource" where
  "serializer_create declared model_defaults data =
     (case WithTeamMixin_validate None 0 (with_field_defaults declared data) of
        Inl e \<Rightarrow> Inl e
      | Inr attrs \<Rightarrow> Inr (setattrs model_defaults attrs))"

definition levels_ordered :: "resource \<Rightarrow> bool" where
  "levels_ordered r =
     (read_access_level r \<le> edit_access_level r \<and> edit_access_level r \<le> delete_access_level r)"

section \<open>Groups (\<open>TransparentGroupSerializer\<close>)\<close>

record user =
  user_id :: nat
  is_active :: bool

text \<open>
  A group is its set of users. \<open>editable_lab\<close> is the lab whose admin group this is:
  \<open>hasattr(instance, 'editable_lab')\<close> holds exactly when there is one.
\<close>

record group =
  user_set :: "nat set"
  editable_lab :: "nat option"

definition validate_users :: "user list \<Rightarrow> user list" where
  "validate_users v = filter is_active v"

text \<open>
  \<open>TransparentGroupSerializer.update\<close>; the argument is \<open>validated_data.get('user_set')\<close>,
  \<open>None\<close> when the key is absent.
\<close>

definition TransparentGroupSerializer_update :: "group \<Rightarrow> user list option \<Rightarrow> error + group" where
  "TransparentGroupSerializer_update inst validated_user_set =
     (case validated_user_set of
        None \<Rightarrow> Inr inst
      | Some users \<Rightarrow>
          (if editable_lab inst \<noteq> None \<and> length users < 1
           then Inl (ValidationError ''Labs must always have at least one administrator'')
           else Inr (inst\<lparr> user_set := user_id ` set users \<rparr>)))"

section \<open>Harvester names (\<open>HarvesterSerializer.validate_name\<close>)\<close>

record Harvester =
  harvester_id :: nat
  harvester_name :: string
  harvester_lab :: nat

text \<open>
  \<open>objects\<close> is the Harvester table. \<open>self_instance\<close> is \<open>None\<close> on a create (also through
  \<open>HarvesterCreateSerializer\<close>, which inherits the method) and the row on an update.
\<close>

definition HarvesterSerializer_validate_name ::
    "Harvester list \<Rightarrow> Harvester option \<Rightarrow> string \<Rightarrow> error + string" where
  "HarvesterSerializer_validate_name objects self_instance v =
     (let harvesters = filter (\<lambda>h. harvester_name h = v) objects;
          harvesters =
            (case self_instance of
               None \<Rightarrow> harvesters
             | Some inst \<Rightarrow>
                 filter (\<lambda>h. harvester_lab h = harvester_lab inst)
                   (filter (\<lambda>h. harvester_id h \<noteq> harvester_id inst) harvesters))
      in if harvesters \<noteq> []
         then Inl (ValidationError ''Harvester with that name already exists'')
         else Inr v)"

text \<open>Whether a Harvester of lab \<open>l\<close>, other than the row \<open>i\<close>, is called \<open>v\<close>.\<close>

definition name_used_in_lab :: "Harvester list \<Rightarrow> nat \<Rightarrow> nat option \<Rightarrow> string \<Rightarrow> bool" where
  "name_used_in_lab objects l i v =
     (filter (\<lambda>h. harvester_lab h = l \<and> Some (harvester_id h) \<noteq> i \<and> harvester_name h = v)
        objects \<noteq> [])"

section \<open>Column mappings (\<open>ColumnMappingSerializer\<close>)\<close>

text \<open>
  JSON values as Python holds them. A dictionary is the list of its items in insertion
  order, with distinct keys. Floating-point numbers are a type parameter: nothing here
  computes with them.
\<close>

datatype 'f json =
    JNull
  | JBool bool
  | JInt int
  | JFloat 'f
  | JStr string
  | JList "'f json list"
  | JDict "(string \<times> 'f json) list"

text \<open>\<open>d.get(k, default)\<close>, and \<open>d[k] = v\<close>, which keeps the position of a key already there.\<close>

definition dict_get :: "('k \<times> 'v) list \<Rightarrow> 'k \<Rightarrow> 'v \<Rightarrow> 'v" where
  "dict_get d k dflt = (case map_of d k of Some x \<Rightarrow> x | None \<Rightarrow> dflt)"

fun dict_set :: "('k \<times> 'v) list \<Rightarrow> 'k \<Rightarrow> 'v \<Rightarrow> ('k \<times> 'v) list" where
  "dict_set [] k v = [(k, v)]"
| "dict_set (p # d) k v = (if fst p = k then (k, v) # d else p # dict_set d k v)"

record 'f DataColumnType =
  pk :: "'f json"
  name :: string
  is_required :: bool
  data_type :: string

text \<open>
  \<open>DataColumnType.objects.get(pk=x)\<close>: the row of the table with that primary key;
  \<open>None\<close> stands for \<open>DoesNotExist\<close>.
\<close>

definition DataColumnType_get :: "'f DataColumnType list \<Rightarrow> 'f json \<Rightarrow> 'f DataColumnType option" where
  "DataColumnType_get objects x = find (\<lambda>c. pk c = x) objects"

text \<open>
  Python's \<open>int\<close>, \<open>float\<close> and \<open>str\<close> on JSON values are parameters of the model.
  \<open>py_int x = None\<close> and \<open>py_float x = None\<close> stand for the \<open>ValueError\<close> or \<open>TypeError\<close> of
  a value that does not convert. Any other exception of a conversion (the
  \<open>OverflowError\<close> of \<open>float\<close> on a huge integer) is not caught by \<open>validate_map\<close> and is
  outside the model.
\<close>

record 'f builtins =
  py_int :: "'f json \<Rightarrow> 'f json option"
  py_float :: "'f json \<Rightarrow> 'f json option"
  py_str :: "'f json \<Rightarrow> string"

text \<open>\<open>type_fn = int if column_type.data_type == 'int' else float\<close>\<close>

definition type_fn :: "'f builtins \<Rightarrow> string \<Rightarrow> 'f json \<Rightarrow> 'f json option" where
  "type_fn py dt = (if dt = ''int'' then py_int py else py_float py)"

definition quoted :: "string \<Rightarrow> string" where
  "quoted s = CHR 0x27 # s @ [CHR 0x27]"

text \<open>The message of the error raised for a required column-type that is targeted twice.\<close>

definition already_assigned_message :: "string \<Rightarrow> string \<Rightarrow> string \<Rightarrow> string" where
  "already_assigned_message k column_type_name k0 =
     ''Cannot assign column '' @ quoted k @ '' to required column '' @ column_type_name
       @ ''. Column '' @ column_type_name @ '' is already assigned to column '' @ quoted k0"

text \<open>
  \<open>if column_type.pk in required_column_ids: if column_type.pk in
  required_columns_supplied.keys(): raise ...\<close>; \<open>ids\<close> are the \<open>required_column_ids\<close>.
\<close>

definition required_conflict ::
    "'f json list \<Rightarrow> ('f json \<times> string) list \<Rightarrow> 'f DataColumnType \<Rightarrow> string \<Rightarrow> error option" where
  "required_conflict ids required_columns_supplied column_type k =
     (if pk column_type \<in> set ids then
        (case map_of required_columns_supplied (pk column_type) of
           Some k0 \<Rightarrow> Some (ValidationError (already_assigned_message k (name column_type) k0))
         | None \<Rightarrow> None)
      else None)"

text \<open>\<open>if 'new_name' in v: ...\<close>\<close>

definition new_name_error :: "(string \<times> 'f json) list \<Rightarrow> 'f DataColumnType \<Rightarrow> string \<Rightarrow> error option" where
  "new_name_error v column_type k =
     (case map_of v ''new_name'' of
        None \<Rightarrow> None
      | Some n \<Rightarrow>
          (if is_required column_type
           then Some (ValidationError
                  (''Column '' @ quoted k
                     @ '' is one of the core required columns and cannot be renamed''))
           else (case n of
                   JStr s \<Rightarrow> None
                 | _ \<Rightarrow> Some (ValidationError
                          (''new_name for column '' @ quoted k @ '' must be a string'')))))"

text \<open>
  The last branch of the loop body: a numeric column gets its converted multiplier and
  addition written into the entry, any other column must have neither. The result is
  the entry as the loop leaves it.
\<close>

definition numeric_fields ::
    "'f builtins \<Rightarrow> 'f DataColumnType \<Rightarrow> string \<Rightarrow> (string \<times> 'f json) list
      \<Rightarrow> error + (string \<times> 'f json) list" where
  "numeric_fields py column_type k v =
     (if data_type column_type = ''int'' \<or> data_type column_type = ''float'' then
        (case type_fn py (data_type column_type) (dict_get v ''multiplier'' (JInt 1)) of
           None \<Rightarrow> Inl (ValidationError
                     (''Multiplier and addition for column '' @ quoted k @ '' must be ''
                        @ data_type column_type))
         | Some m \<Rightarrow>
             (let v1 = dict_set v ''multiplier'' m in
              case type_fn py (data_type column_type) (dict_get v1 ''addition'' (JInt 0)) of
                None \<Rightarrow> Inl (ValidationError
                          (''Multiplier and addition for column '' @ quoted k @ '' must be ''
                             @ data_type column_type))
              | Some a \<Rightarrow> Inr (dict_set v1 ''addition'' a)))
      else if map_of v ''multiplier'' \<noteq> None then
        Inl (ValidationError
          (''Column '' @ quoted k @ '' is not numerical, so it cannot have a multiplier''))
      else if map_of v ''addition'' \<noteq> None then
        Inl (ValidationError
          (''Column '' @ quoted k @ '' is not numerical, so it cannot have an addition''))
      else Inr v)"

text \<open>
  The body of \<open>for k, v in value.items()\<close>. The state is the pair of
  \<open>required_columns_supplied\<close> and \<open>new_value\<close>. The keys of a JSON object are strings,
  so the check \<open>isinstance(k, str)\<close> cannot fail.
\<close>

definition validate_map_entry ::
    "'f builtins \<Rightarrow> 'f DataColumnType list \<Rightarrow> 'f json list
      \<Rightarrow> ('f json \<times> string) list \<times> (string \<times> 'f json) list
      \<Rightarrow> string \<Rightarrow> 'f json
      \<Rightarrow> error + ('f json \<times> string) list \<times> (string \<times> 'f json) list" where
  "validate_map_entry py objects ids st k v =
     (let required_columns_supplied = fst st;
          new_value = dict_set (snd st) k v
      in case v of
           JDict d \<Rightarrow>
             (case DataColumnType_get objects (dict_get d ''column_type'' JNull) of
                None \<Rightarrow>
                  (if dict_get d ''column_type'' JNull = JNull
                   then Inl (ValidationError
                          (''No column_type specified for column '' @ quoted k
                             @ '' - perhaps you should use Unknown''))
                   else Inl (ValidationError
                          (''Invalid column_type id ''
                             @ quoted (py_str py (dict_get d ''column_type'' JNull))
                             @ '' for column '' @ quoted k)))
              | Some column_type \<Rightarrow>
                  (case required_conflict ids required_columns_supplied
                          column_type k of
                     Some e \<Rightarrow> Inl e
                   | None \<Rightarrow>
                       (let supplied =
                              (if pk column_type \<in> set ids
                               then dict_set required_columns_supplied (pk column_type) k
                               else required_columns_supplied)
                        in case new_name_error d column_type k of
                             Some e \<Rightarrow> Inl e
                           | None \<Rightarrow>
                               (case numeric_fields py column_type k d of
                                  Inl e \<Rightarrow> Inl e
                                | Inr d' \<Rightarrow> Inr (supplied, dict_set new_value k (JDict d'))))))
         | _ \<Rightarrow> Inl (ValidationError ''Values must be dictionaries''))"

fun validate_map_loop ::
    "'f builtins \<Rightarrow> 'f DataColumnType list \<Rightarrow> 'f json list
      \<Rightarrow> ('f json \<times> string) list \<times> (string \<times> 'f json) list
      \<Rightarrow> (string \<times> 'f json) list
      \<Rightarrow> error + ('f json \<times> string) list \<times> (string \<times> 'f json) list" where
  "validate_map_loop py objects ids st [] = Inr st"
| "validate_map_loop py objects ids st (kv # items) =
     (case validate_map_entry py objects ids st (fst kv) (snd kv) of
        Inl e \<Rightarrow> Inl e
      | Inr st' \<Rightarrow> validate_map_loop py objects ids st' items)"

text \<open>\<open>required_column_ids = [c.pk for c in DataColumnType.objects.filter(is_required=True)]\<close>\<close>

definition required_column_ids :: "'f DataColumnType list \<Rightarrow> 'f json list" where
  "required_column_ids objects = map pk (filter is_required objects)"

text \<open>\<open>ColumnMappingSerializer.validate_map\<close>; \<open>objects\<close> is the DataColumnType table.\<close>

definition ColumnMappingSerializer_validate_map ::
    "'f builtins \<Rightarrow> 'f DataColumnType list \<Rightarrow> 'f json \<Rightarrow> error + 'f json" where
  "ColumnMappingSerializer_validate_map py objects v =
     (case v of
        JDict items \<Rightarrow>
          (case validate_map_loop py objects (required_column_ids objects) ([], []) items of
             Inl e \<Rightarrow> Inl e
           | Inr st \<Rightarrow> Inr (JDict (snd st)))
      | _ \<Rightarrow> Inl (ValidationError ''Map must be a dictionary''))"

text \<open>
  The required column-type a map entry targets, if it targets one (\<open>ids\<close> are the
  required ids), and the list of the required column-types that the entries of a map
  target, one per entry that targets one.
\<close>

definition required_target ::
    "'f DataColumnType list \<Rightarrow> 'f json list \<Rightarrow> 'f json \<Rightarrow> 'f DataColumnType option" where
  "required_target objects ids v =
     (case v of
        JDict d \<Rightarrow>
          (case DataColumnType_get objects (dict_get d ''column_type'' JNull) of
             Some c \<Rightarrow> if pk c \<in> set ids then Some c else None
           | None \<Rightarrow> None)
      | _ \<Rightarrow> None)"

definition required_targets ::
    "'f DataColumnType list \<Rightarrow> (string \<times> 'f json) list \<Rightarrow> 'f DataColumnType list" where
  "required_targets objects items =
     List.map_filter (\<lambda>kv. required_target objects (required_column_ids objects) (snd kv)) items"






text \<open>
  Builtins for the examples: \<open>int\<close> and \<open>float\<close> on integers and booleans, as Python
  converts them, with the float of the integer \<open>i\<close> written \<open>JFloat i\<close>; \<open>str\<close> on strings.
  The examples apply them to nothing else.
\<close>

definition example_builtins :: "int builtins" where
  "example_builtins =
     \<lparr> py_int = (\<lambda>x. case x of JInt i \<Rightarrow> Some (JInt i)
                        | JBool b \<Rightarrow> Some (JInt (if b then 1 else 0))
                        | _ \<Rightarrow> None),
       py_float = (\<lambda>x. case x of JInt i \<Rightarrow> Some (JFloat i)
                          | JBool b \<Rightarrow> Some (JFloat (if b then 1 else 0))
                          | JFloat f \<Rightarrow> Some (JFloat f)
                          | _ \<Rightarrow> None),
       py_str = (\<lambda>x. case x of JStr s \<Rightarrow> s | _ \<Rightarrow> []) \<rparr>"

text \<open>An example table: a required column type and two optional ones.\<close>

definition example_column_types :: "int DataColumnType list" where
  "example_column_types =
     [\<lparr> pk = JInt 1, name = ''Voltage'', is_required = True, data_type = ''float'' \<rparr>,
      \<lparr> pk = JInt 2, name = ''Cycle'', is_required = False, data_type = ''int'' \<rparr>,
      \<lparr> pk = JInt 3, name = ''Comment'', is_required = False, data_type = ''str'' \<rparr>]"

section \<open>Uploading a file (\<open>ObservedFileCreateSerializer.create\<close>)\<close>

text \<open>
  Modelled from the spec: the enumeration \<open>FileState\<close> is declared in the models module;
  the spec lists its states. The serializer names three of them.
\<close>

datatype FileState =
    AWAITING_FILE_METADATA
  | AWAITING_MAP_ASSIGNMENT
  | IMPORTING
  | IMPORTED
  | IMPORT_FAILED

text \<open>
  The fields of an ObservedFile that \<open>create\<close> reads or writes. \<open>'s\<close> is the type of
  column summaries, compared with \<open>!=\<close> only. Mappings are given by their ids.
\<close>

record 's ObservedFile =
  file_id :: nat
  state :: FileState
  summary :: 's
  mapping :: "nat option"
  png :: "string option"

record ParquetPartition =
  observed_file :: nat
  partition_number :: nat
  bytes_required :: nat

text \<open>
  What \<open>create\<close> changes: the ObservedFile table, the ParquetPartition table and the
  temporary files of the local file system.
\<close>

record 's world =
  observed_files :: "'s ObservedFile list"
  parquet_partitions :: "ParquetPartition list"
  temp_files :: "string set"

text \<open>
  What the calls that leave the serializer give back, each either a result or the
  \<open>str\<close> of the exception it raises (\<open>Inl\<close>):
  \<^item> \<open>temp_name\<close>: the name of the \<open>NamedTemporaryFile\<close>;
  \<^item> \<open>summarise\<close>: \<open>InternalHarvestProcessor(temp_file.name)\<close> and
    \<open>harvester.summarise_columns()\<close>, the summary as it is stored and compared;
  \<^item> \<open>created\<close>: \<open>ObservedFile.objects.create(...)\<close>, the id and the state of the new row;
  \<^item> \<open>applicable_mappings\<close>: the mappings of \<open>observed_file.applicable_mappings(request)\<close>;
  \<^item> \<open>process\<close>: rendering the mapping, \<open>harvester.process_data()\<close> and \<open>os.walk\<close>: the
    files of the data directory with their sizes;
  \<^item> \<open>partition_create\<close>: \<open>ParquetPartition.objects.create\<close> for the file at an index of that
    listing, \<open>Some\<close> the exception it raises;
  \<^item> \<open>open_png\<close>: opening the preview image.
\<close>

record 's calls =
  temp_name :: string
  summarise :: "string + 's"
  created :: "string + nat \<times> FileState"
  applicable_mappings :: "string + nat list"
  process :: "string + (string \<times> nat) list"
  partition_create :: "nat \<Rightarrow> string option"
  open_png :: "string + string"

text \<open>\<open>str(e)\<close> of a \<open>ValidationError(m)\<close> raised inside the \<open>try\<close>.\<close>

definition ErrorDetail_str :: "string \<Rightarrow> string" where
  "ErrorDetail_str m =
     ''[ErrorDetail(string='' @ quoted m @ '', code='' @ quoted ''invalid'' @ '')]''"

text \<open>\<open>observed_file.save()\<close>: the row with the id of the object is replaced by the object.\<close>

fun save_row :: "'s ObservedFile list \<Rightarrow> 's ObservedFile \<Rightarrow> 's ObservedFile list" where
  "save_row [] f = [f]"
| "save_row (r # rows) f = (if file_id r = file_id f then f # rows else r # save_row rows f)"

definition save :: "'s world \<Rightarrow> 's ObservedFile \<Rightarrow> 's world" where
  "save w f = w\<lparr> observed_files := save_row (observed_files w) f \<rparr>"

definition get_file :: "'s world \<Rightarrow> nat \<Rightarrow> 's ObservedFile option" where
  "get_file w i = find (\<lambda>f. file_id f = i) (observed_files w)"

definition endswith :: "string \<Rightarrow> string \<Rightarrow> bool" where
  "endswith s suffix = (length suffix \<le> length s \<and> drop (length s - length suffix) s = suffix)"

text \<open>
  \<open>for i, name in enumerate(...): if name.endswith('.parquet'): ParquetPartition.objects.create(...)\<close>;
  the result is the exception that stopped the loop, if one did.
\<close>

fun store_partitions ::
    "'s calls \<Rightarrow> 's world \<Rightarrow> nat \<Rightarrow> nat \<Rightarrow> (string \<times> nat) list \<Rightarrow> 's world \<times> string option" where
  "store_partitions c w fid i [] = (w, None)"
| "store_partitions c w fid i (p # ps) =
     (if endswith (fst p) ''.parquet'' then
        (case partition_create c i of
           Some e \<Rightarrow> (w, Some e)
         | None \<Rightarrow>
             store_partitions c
               (w\<lparr> parquet_partitions := parquet_partitions w
                      @ [\<lparr> observed_file = fid, partition_number = i, bytes_required = snd p \<rparr>] \<rparr>)
               fid (Suc i) ps)
      else store_partitions c w fid (Suc i) ps)"


text \<open>
  The branch \<open>if mapping is not None\<close> of the \<open>try\<close> block. It ends with the object
  \<open>observed_file\<close> as the branch leaves it (\<open>Inr\<close>), or with an exception (\<open>Inl\<close>): the
  object as it is when the exception is raised, and the \<open>str\<close> of the exception.
\<close>

definition apply_mapping ::
    "'s calls \<Rightarrow> 's world \<Rightarrow> 's ObservedFile \<Rightarrow> nat
      \<Rightarrow> 's world \<times> ('s ObservedFile \<times> string + 's ObservedFile)" where
  "apply_mapping c w f m =
     (case applicable_mappings c of
        Inl e \<Rightarrow> (w, Inl (f, e))
      | Inr ms \<Rightarrow>
          (if m \<notin> set ms
           then (w, Inl (f, ErrorDetail_str ''Mapping is not applicable to this file''))
           else
             (let f1 = f\<lparr> mapping := Some m \<rparr>;
                  w1 = save w f1
              in case process c of
                   Inl e \<Rightarrow> (w1, Inl (f1, e))
                 | Inr names \<Rightarrow>
                     (case store_partitions c w1 (file_id f1) 0 names of
                        (w2, Some e) \<Rightarrow> (w2, Inl (f1, e))
                      | (w2, None) \<Rightarrow>
                          (case open_png c of
                             Inl e \<Rightarrow> (w2, Inl (f1, e))
                           | Inr p \<Rightarrow> (w2, Inr (f1\<lparr> png := Some p, state := IMPORTED \<rparr>)))))))"

text \<open>
  The \<open>try\<close> block from the point where \<open>observed_file\<close> is bound: the mapping is
  applied, or the file waits for one; then \<open>observed_file.save()\<close> and \<open>return\<close>.
\<close>

definition finish_upload ::
    "'s calls \<Rightarrow> 's world \<Rightarrow> 's ObservedFile \<Rightarrow> nat option
      \<Rightarrow> 's world \<times> ('s ObservedFile \<times> string + 's ObservedFile)" where
  "finish_upload c w f m_opt =
     (case m_opt of
        Some m \<Rightarrow>
          (case apply_mapping c w f m of
             (w1, Inl raised) \<Rightarrow> (w1, Inl raised)
           | (w1, Inr f1) \<Rightarrow> (save w1 f1, Inr f1))
      | None \<Rightarrow>
          (let f1 = f\<lparr> state := AWAITING_MAP_ASSIGNMENT \<rparr> in (save w f1, Inr f1)))"

text \<open>
  The whole \<open>try\<close> block: the returned file (\<open>Inr\<close>), or an exception (\<open>Inl\<close>) with the
  variable \<open>observed_file\<close> as it is then, \<open>None\<close> as long as no file has been resolved or
  created. \<open>target_file\<close> is the ObservedFile of \<open>target_file_id\<close>, \<open>m_opt\<close> the submitted
  mapping.
\<close>

definition try_block ::
    "'s calls \<Rightarrow> 's world \<Rightarrow> 's ObservedFile option \<Rightarrow> nat option
      \<Rightarrow> 's world \<times> ('s ObservedFile option \<times> string + 's ObservedFile)" where
  "try_block c w target_file m_opt =
     (case summarise c of
        Inl e \<Rightarrow> (w, Inl (None, e))
      | Inr s \<Rightarrow>
          (case target_file of
             Some f \<Rightarrow>
               (if summary f \<noteq> s
                then (w, Inl (Some f, ErrorDetail_str ''Summary does not match existing file''))
                else
                  (case finish_upload c w f
                          (case m_opt of None \<Rightarrow> mapping f | Some m \<Rightarrow> Some m) of
                     (w1, Inl raised) \<Rightarrow> (w1, Inl (Some (fst raised), snd raised))
                   | (w1, Inr f1) \<Rightarrow> (w1, Inr f1)))
           | None \<Rightarrow>
               (case created c of
                  Inl e \<Rightarrow> (w, Inl (None, e))
                | Inr new \<Rightarrow>
                    (let f = \<lparr> file_id = fst new, state = snd new, summary = s,
                              mapping = None, png = None \<rparr>
                     in case finish_upload c (save w f) f m_opt of
                          (w1, Inl raised) \<Rightarrow> (w1, Inl (Some (fst raised), snd raised))
                        | (w1, Inr f1) \<Rightarrow> (w1, Inr f1)))))"

text \<open>\<open>os.unlink(temp_file.name)\<close>\<close>

definition unlink :: "string \<Rightarrow> 's world \<Rightarrow> 's world" where
  "unlink path w = w\<lparr> temp_files := temp_files w - {path} \<rparr>"

text \<open>
  \<open>ObservedFileCreateSerializer.create\<close>: the upload is copied to a temporary file, the
  \<open>try\<close> block runs, an exception marks the file failed (\<open>if observed_file: ...\<close>) and
  becomes a validation error, and \<open>finally\<close> unlinks the temporary file. Copying the
  upload, saving a row that exists and unlinking are taken to succeed.
\<close>

definition ObservedFileCreateSerializer_create ::
    "'s calls \<Rightarrow> 's world \<Rightarrow> 's ObservedFile option \<Rightarrow> nat option
      \<Rightarrow> 's world \<times> (error + 's ObservedFile)" where
  "ObservedFileCreateSerializer_create c w target_file m_opt =
     (case try_block c (w\<lparr> temp_files := insert (temp_name c) (temp_files w) \<rparr>)
             target_file m_opt of
        (w1, Inr f) \<Rightarrow> (unlink (temp_name c) w1, Inr f)
      | (w1, Inl raised) \<Rightarrow>
          (unlink (temp_name c)
             (case fst raised of
                Some f \<Rightarrow> save w1 (f\<lparr> state := IMPORT_FAILED \<rparr>)
              | None \<Rightarrow> w1),
           Inl (ValidationError (''Error processing file: '' @ snd raised))))"

text \<open>
  The file a request has resolved (a second-stage upload, once the upload is
  summarised) or created (a first upload, once the row exists), if it got that far.
\<close>

definition bound_file :: "'s calls \<Rightarrow> 's ObservedFile option \<Rightarrow> nat option" where
  "bound_file c target_file =
     (case summarise c of
        Inl e \<Rightarrow> None
      | Inr s \<Rightarrow>
          (case target_file of
             Some f \<Rightarrow> Some (file_id f)
           | None \<Rightarrow> (case created c of Inl e \<Rightarrow> None | Inr new \<Rightarrow> Some (fst new))))"

text \<open>Calls for the examples: every call succeeds; \<open>summarise\<close> gives the summary \<open>s\<close>.\<close>

definition example_calls :: "string + string \<Rightarrow> string calls" where
  "example_calls s =
     \<lparr> temp_name = ''/tmp/upload'',
       summarise = s,
       created = Inr (2, AWAITING_FILE_METADATA),
       applicable_mappings = Inr [7],
       process = Inr [(''part0.parquet'', 1000)],
       partition_create = (\<lambda>i. None),
       open_png = Inr ''preview.png'' \<rparr>"

definition example_world :: "string world" where
  "example_world =
     \<lparr> observed_files =
         [\<lparr> file_id = 1, state = AWAITING_MAP_ASSIGNMENT, summary = ''columns: a, b'',
            mapping = None, png = None \<rparr>],
       parquet_partitions = [],
       temp_files = {} \<rparr>"

section \<open>Storage quota\<close>














section \<open>Properties of the access levels\<close>

lemma level_names_distinct:
  "''read_access_level'' \<noteq> ''edit_access_level''"
  "''read_access_level'' \<noteq> ''delete_access_level''"
  "''edit_access_level'' \<noteq> ''delete_access_level''"
  by simp_all


text \<open>
  C1. \<open>validate\<close> compares the read level with the edit level only when the read level is
  submitted, and the edit level with the delete level only when the edit level is
  submitted. A team admin who lowers the delete level alone, below the stored edit level,
  passes validation: the write succeeds and the stored levels no longer satisfy
  read \<le> edit \<le> delete.
\<close>

theorem C1_lowering_delete_alone_breaks_order:
  "levels_ordered \<lparr> read_access_level = UserLevel_value LAB_MEMBER,
                    edit_access_level = UserLevel_value TEAM_ADMIN,
                    delete_access_level = UserLevel_value TEAM_ADMIN \<rparr>
   \<and> serializer_update
        \<lparr> read_access_level = UserLevel_value LAB_MEMBER,
          edit_access_level = UserLevel_value TEAM_ADMIN,
          delete_access_level = UserLevel_value TEAM_ADMIN \<rparr>
        (UserLevel_value TEAM_ADMIN)
        [''delete_access_level'' \<mapsto> UserLevel_value TEAM_MEMBER]
      = Inr \<lparr> read_access_level = UserLevel_value LAB_MEMBER,
              edit_access_level = UserLevel_value TEAM_ADMIN,
              delete_access_level = UserLevel_value TEAM_MEMBER \<rparr>
   \<and> \<not> levels_ordered \<lparr> read_access_level = UserLevel_value LAB_MEMBER,
                        edit_access_level = UserLevel_value TEAM_ADMIN,
                        delete_access_level = UserLevel_value TEAM_MEMBER \<rparr>"
  by (simp add: levels_ordered_def serializer_update_def WithTeamMixin_validate_def
      level_names_def getattr_def access_change_error_def delete_change_error_def
      read_above_edit_def edit_above_delete_def setattrs_def)





text \<open>
  On a create through a serializer with the three level fields of \<open>WithTeamMixin\<close> every
  level is in \<open>attrs\<close>, submitted or by default, so both hierarchy checks run: a resource
  that is created satisfies read \<le> edit \<le> delete, and a create whose levels are out of
  order is rejected.
\<close>

lemma created_levels_ordered:
  assumes "serializer_create field_default model_defaults data = Inr r"
  shows "levels_ordered r"
proof -
  let ?a = "with_field_defaults field_default data"
  have "\<exists>rd. ?a ''read_access_level'' = Some rd"
    by (cases "data ''read_access_level''")
       (simp_all add: with_field_defaults_def field_default_def)
  moreover have "\<exists>ed. ?a ''edit_access_level'' = Some ed"
    by (cases "data ''edit_access_level''")
       (simp_all add: with_field_defaults_def field_default_def)
  moreover have "\<exists>dl. ?a ''delete_access_level'' = Some dl"
    by (cases "data ''delete_access_level''")
       (simp_all add: with_field_defaults_def field_default_def)
  ultimately obtain rd ed dl where l: "?a ''read_access_level'' = Some rd"
      "?a ''edit_access_level'' = Some ed" "?a ''delete_access_level'' = Some dl"
    by blast
  from assms have v: "WithTeamMixin_validate None 0 ?a = Inr ?a" and r: "r = setattrs model_defaults ?a"
    by (auto simp: serializer_create_def WithTeamMixin_validate_def Let_def
        split: sum.splits option.splits)
  from v l have "rd \<le> ed" "ed \<le> dl"
    by (auto simp: WithTeamMixin_validate_def read_above_edit_def edit_above_delete_def Let_def
        split: option.splits if_splits)
  with l r show ?thesis by (simp add: levels_ordered_def setattrs_def)
qed

lemma created_levels_ordered_witness:
  "serializer_create field_default
      \<lparr> read_access_level = 0, edit_access_level = 0, delete_access_level = 0 \<rparr>
      [''read_access_level'' \<mapsto> UserLevel_value TEAM_MEMBER]
     = Inr \<lparr> read_access_level = UserLevel_value TEAM_MEMBER,
             edit_access_level = UserLevel_value TEAM_MEMBER,
             delete_access_level = UserLevel_value TEAM_MEMBER \<rparr>
   \<and> levels_ordered \<lparr> read_access_level = UserLevel_value TEAM_MEMBER,
                      edit_access_level = UserLevel_value TEAM_MEMBER,
                      delete_access_level = UserLevel_value TEAM_MEMBER \<rparr>"
proof -
  have c: "serializer_create field_default
      \<lparr> read_access_level = 0, edit_access_level = 0, delete_access_level = 0 \<rparr>
      [''read_access_level'' \<mapsto> UserLevel_value TEAM_MEMBER]
     = Inr \<lparr> read_access_level = UserLevel_value TEAM_MEMBER,
             edit_access_level = UserLevel_value TEAM_MEMBER,
             delete_access_level = UserLevel_value TEAM_MEMBER \<rparr>"
    by (simp add: with_field_defaults_def field_default_def serializer_create_def
        WithTeamMixin_validate_def read_above_edit_def edit_above_delete_def setattrs_def)
  from created_levels_ordered[OF c] c show ?thesis by simp
qed

section \<open>Properties of groups and of Harvester names\<close>

text \<open>
  C8. An update of a lab's admin group never leaves it without users: if the group had a
  user before a successful update, it has one after it, and an update to the empty list
  of users is rejected with a validation error. A group that is not a lab's admin group
  may be emptied.
\<close>

theorem C8_lab_admin_group_keeps_a_user:
  "(editable_lab g \<noteq> None \<and> user_set g \<noteq> {}
      \<and> TransparentGroupSerializer_update g vd = Inr g'
    \<longrightarrow> user_set g' \<noteq> {} \<and> editable_lab g' = editable_lab g)
   \<and> (editable_lab g \<noteq> None
    \<longrightarrow> TransparentGroupSerializer_update g (Some [])
          = Inl (ValidationError ''Labs must always have at least one administrator''))
   \<and> (editable_lab g = None
    \<longrightarrow> TransparentGroupSerializer_update g (Some []) = Inr (g\<lparr> user_set := {} \<rparr>))"
  by (auto simp: TransparentGroupSerializer_update_def split: option.splits if_splits)

theorem C8_lab_admin_group_witness:
  "editable_lab \<lparr> user_set = {1}, editable_lab = Some 7 \<rparr> \<noteq> None
   \<and> user_set \<lparr> user_set = {1}, editable_lab = Some 7 \<rparr> \<noteq> {}
   \<and> TransparentGroupSerializer_update \<lparr> user_set = {1}, editable_lab = Some 7 \<rparr>
        (Some [\<lparr> user_id = 2, is_active = True \<rparr>])
      = Inr \<lparr> user_set = {2}, editable_lab = Some 7 \<rparr>
   \<and> user_set \<lparr> user_set = {2::nat}, editable_lab = Some (7::nat) \<rparr> \<noteq> {}
   \<and> TransparentGroupSerializer_update \<lparr> user_set = {1}, editable_lab = Some 7 \<rparr> (Some [])
      = Inl (ValidationError ''Labs must always have at least one administrator'')
   \<and> editable_lab \<lparr> user_set = {1}, editable_lab = None \<rparr> = None
   \<and> TransparentGroupSerializer_update \<lparr> user_set = {1}, editable_lab = None \<rparr> (Some [])
      = Inr \<lparr> user_set = {}, editable_lab = None \<rparr>"
  using C8_lab_admin_group_keeps_a_user
          [of "\<lparr> user_set = {1}, editable_lab = Some 7 \<rparr>"
              "Some [\<lparr> user_id = 2, is_active = True \<rparr>]"
              "\<lparr> user_set = {2}, editable_lab = Some 7 \<rparr>"]
        C8_lab_admin_group_keeps_a_user
          [of "\<lparr> user_set = {1}, editable_lab = None \<rparr>"]
  by (simp add: TransparentGroupSerializer_update_def)

text \<open>
  C4. On a create, \<open>validate_name\<close> looks for the name among the Harvesters of every lab:
  the lab filter is applied only when there is an instance. A Harvester of lab 1 called
  \<open>cycler-pc\<close> makes the creation of a Harvester of that name fail in lab 2, where no
  Harvester has the name. The rename of a Harvester of lab 2 to that name passes.
\<close>

theorem C4_create_checks_every_lab:
  "HarvesterSerializer_validate_name
      [\<lparr> harvester_id = 1, harvester_name = ''cycler-pc'', harvester_lab = 1 \<rparr>,
       \<lparr> harvester_id = 2, harvester_name = ''bench'', harvester_lab = 2 \<rparr>]
      None ''cycler-pc''
     = Inl (ValidationError ''Harvester with that name already exists'')
   \<and> \<not> name_used_in_lab
        [\<lparr> harvester_id = 1, harvester_name = ''cycler-pc'', harvester_lab = 1 \<rparr>,
         \<lparr> harvester_id = 2, harvester_name = ''bench'', harvester_lab = 2 \<rparr>]
        2 None ''cycler-pc''
   \<and> HarvesterSerializer_validate_name
      [\<lparr> harvester_id = 1, harvester_name = ''cycler-pc'', harvester_lab = 1 \<rparr>,
       \<lparr> harvester_id = 2, harvester_name = ''bench'', harvester_lab = 2 \<rparr>]
      (Some \<lparr> harvester_id = 2, harvester_name = ''bench'', harvester_lab = 2 \<rparr>) ''cycler-pc''
     = Inr ''cycler-pc''"
  by (simp add: HarvesterSerializer_validate_name_def name_used_in_lab_def)

text \<open>
  On a rename the check is scoped to the lab of the instance: validation fails if and
  only if another Harvester of the same lab has the name.
\<close>

lemma validate_name_rename_scoped_to_lab:
  "(\<exists>e. HarvesterSerializer_validate_name objects (Some inst) v = Inl e)
     = name_used_in_lab objects (harvester_lab inst) (Some (harvester_id inst)) v"
proof -
  have "filter (\<lambda>h. harvester_lab h = harvester_lab inst)
          (filter (\<lambda>h. harvester_id h \<noteq> harvester_id inst)
             (filter (\<lambda>h. harvester_name h = v) objects))
        = filter (\<lambda>h. harvester_lab h = harvester_lab inst
                     \<and> Some (harvester_id h) \<noteq> Some (harvester_id inst)
                     \<and> harvester_name h = v) objects"
    by (induction objects) auto
  then show ?thesis
    by (simp add: HarvesterSerializer_validate_name_def name_used_in_lab_def)
qed

lemma validate_name_create_checks_all_labs:
  "(\<exists>e. HarvesterSerializer_validate_name objects None v = Inl e)
     = (\<exists>l. name_used_in_lab objects l None v)"
proof -
  have "(filter (\<lambda>h. harvester_name h = v) objects \<noteq> [])
        = (\<exists>l. filter (\<lambda>h. harvester_lab h = l \<and> harvester_name h = v) objects \<noteq> [])"
    by (auto simp: filter_empty_conv)
  then show ?thesis
    by (simp add: HarvesterSerializer_validate_name_def name_used_in_lab_def)
qed

section \<open>Properties of column mappings\<close>

lemma map_of_dict_set: "map_of (dict_set d k v) = (map_of d)(k \<mapsto> v)"
  by (induction d) auto

lemma DataColumnType_get_pk: "DataColumnType_get objects x = Some c \<Longrightarrow> pk c = x"
  by (auto simp: DataColumnType_get_def find_Some_iff)

lemma required_target_SomeD:
  "required_target objects ids v = Some c \<Longrightarrow>
     \<exists>d. v = JDict d \<and> DataColumnType_get objects (dict_get d ''column_type'' JNull) = Some c
          \<and> pk c \<in> set ids"
  by (cases v) (auto simp: required_target_def split: option.splits if_splits)

lemma required_target_JDict:
  "DataColumnType_get objects (dict_get d ''column_type'' JNull) = Some c \<Longrightarrow>
     required_target objects ids (JDict d) = (if pk c \<in> set ids then Some c else None)"
  by (simp add: required_target_def)

lemma required_target_pk_inj:
  assumes "required_target objects ids v = Some c" "required_target objects ids w = Some c'"
    and "pk c = pk c'"
  shows "c = c'"
proof -
  obtain d where d: "DataColumnType_get objects (dict_get d ''column_type'' JNull) = Some c"
    using required_target_SomeD[OF assms(1)] by blast
  obtain d' where d': "DataColumnType_get objects (dict_get d' ''column_type'' JNull) = Some c'"
    using required_target_SomeD[OF assms(2)] by blast
  have "dict_get d ''column_type'' JNull = dict_get d' ''column_type'' JNull"
    using DataColumnType_get_pk[OF d] DataColumnType_get_pk[OF d'] assms(3) by simp
  with d d' show ?thesis by simp
qed

lemma validate_map_entry_JDict:
  assumes "DataColumnType_get objects (dict_get d ''column_type'' JNull) = Some c"
  shows "validate_map_entry py objects ids st k (JDict d) =
     (case required_conflict ids (fst st) c k of
        Some e \<Rightarrow> Inl e
      | None \<Rightarrow>
          (case new_name_error d c k of
             Some e \<Rightarrow> Inl e
           | None \<Rightarrow>
               (case numeric_fields py c k d of
                  Inl e \<Rightarrow> Inl e
                | Inr d' \<Rightarrow>
                    Inr (if pk c \<in> set ids then dict_set (fst st) (pk c) k else fst st,
                         dict_set (dict_set (snd st) k (JDict d)) k (JDict d')))))"
  using assms by (simp add: validate_map_entry_def Let_def split: option.splits sum.splits)

lemma validate_map_entry_no_target:
  assumes "required_target objects ids v = None"
    and "validate_map_entry py objects ids st k v = Inr st'"
  shows "fst st' = fst st"
proof (cases v)
  case (JDict d)
  show ?thesis
  proof (cases "DataColumnType_get objects (dict_get d ''column_type'' JNull)")
    case None
    with assms(2) JDict show ?thesis
      by (simp add: validate_map_entry_def Let_def split: if_splits)
  next
    case (Some c)
    with assms(1) JDict have "pk c \<notin> set ids"
      by (simp add: required_target_JDict split: if_splits)
    with assms(2) JDict Some show ?thesis
      by (auto simp: validate_map_entry_JDict split: option.splits sum.splits)
  qed
qed (use assms(2) in \<open>simp_all add: validate_map_entry_def Let_def\<close>)

lemma validate_map_entry_target:
  assumes "required_target objects ids v = Some c"
    and "validate_map_entry py objects ids st k v = Inr st'"
  shows "map_of (fst st) (pk c) = None \<and> fst st' = dict_set (fst st) (pk c) k"
proof -
  obtain d where v: "v = JDict d"
    and g: "DataColumnType_get objects (dict_get d ''column_type'' JNull) = Some c"
    and r: "pk c \<in> set ids"
    using required_target_SomeD[OF assms(1)] by blast
  from assms(2) show ?thesis
    unfolding v validate_map_entry_JDict[OF g] using r
    by (auto simp: required_conflict_def split: option.splits sum.splits)
qed

lemma entry_conflict:
  assumes "required_target objects ids v = Some c" "map_of (fst st) (pk c) = Some k0"
  shows "validate_map_entry py objects ids st k v
           = Inl (ValidationError (already_assigned_message k (name c) k0))"
proof -
  obtain d where v: "v = JDict d"
    and g: "DataColumnType_get objects (dict_get d ''column_type'' JNull) = Some c"
    and r: "pk c \<in> set ids"
    using required_target_SomeD[OF assms(1)] by blast
  show ?thesis
    unfolding v validate_map_entry_JDict[OF g] using r assms(2)
    by (simp add: required_conflict_def)
qed


lemma validate_map_entry_dom:
  assumes "validate_map_entry py objects ids st k v = Inr st'"
    and "map_of (fst st') p = None"
  shows "map_of (fst st) p = None"
proof (cases "required_target objects ids v")
  case None
  from validate_map_entry_no_target[OF None assms(1)] assms(2) show ?thesis by simp
next
  case (Some c)
  from validate_map_entry_target[OF Some assms(1)] assms(2) show ?thesis
    by (auto simp: map_of_dict_set split: if_splits)
qed

lemma validate_map_entry_keeps:
  assumes "validate_map_entry py objects ids st k v = Inr st'"
    and "map_of (fst st) p = Some k0"
  shows "map_of (fst st') p = Some k0"
proof (cases "required_target objects ids v")
  case None
  from validate_map_entry_no_target[OF None assms(1)] assms(2) show ?thesis by simp
next
  case (Some c)
  from validate_map_entry_target[OF Some assms(1)] assms(2) show ?thesis
    by (auto simp: map_of_dict_set)
qed

lemma validate_map_loop_keeps:
  "validate_map_loop py objects ids st items = Inr st' \<Longrightarrow> map_of (fst st) p = Some k0
     \<Longrightarrow> map_of (fst st') p = Some k0"
proof (induction items arbitrary: st)
  case Nil
  then show ?case by simp
next
  case (Cons kv items)
  then obtain st1 where e: "validate_map_entry py objects ids st (fst kv) (snd kv) = Inr st1"
    and l: "validate_map_loop py objects ids st1 items = Inr st'"
    by (auto split: sum.splits)
  from validate_map_entry_keeps[OF e Cons.prems(2)] Cons.IH[OF l] show ?case by simp
qed

lemma validate_map_loop_append:
  "validate_map_loop py objects ids st (pre @ post) =
     (case validate_map_loop py objects ids st pre of
        Inl e \<Rightarrow> Inl e
      | Inr st' \<Rightarrow> validate_map_loop py objects ids st' post)"
  by (induction pre arbitrary: st) (auto split: sum.splits)

text \<open>After a prefix has passed, each required column-type it targets is recorded with its column.\<close>

lemma validate_map_loop_records:
  "validate_map_loop py objects ids st pre = Inr st' \<Longrightarrow> (k1, v1) \<in> set pre
     \<Longrightarrow> required_target objects ids v1 = Some c \<Longrightarrow> map_of (fst st') (pk c) = Some k1"
proof (induction pre arbitrary: st)
  case Nil
  then show ?case by simp
next
  case (Cons kv pre)
  then obtain st1 where e: "validate_map_entry py objects ids st (fst kv) (snd kv) = Inr st1"
    and l: "validate_map_loop py objects ids st1 pre = Inr st'"
    by (auto split: sum.splits)
  show ?case
  proof (cases "kv = (k1, v1)")
    case True
    with e Cons.prems(3) have "map_of (fst st1) (pk c) = Some k1"
      using validate_map_entry_target[of objects ids v1 c py st k1 st1]
      by (simp add: map_of_dict_set)
    from validate_map_loop_keeps[OF l this] show ?thesis .
  next
    case False
    with Cons.prems(2) have "(k1, v1) \<in> set pre" by simp
    from Cons.IH[OF l this Cons.prems(3)] show ?thesis .
  qed
qed

text \<open>A map that passes targets no required column-type twice.\<close>

lemma validate_map_loop_distinct:
  "validate_map_loop py objects ids st items = Inr st' \<Longrightarrow>
     distinct (List.map_filter (\<lambda>kv. required_target objects ids (snd kv)) items)
     \<and> (\<forall>c \<in> set (List.map_filter (\<lambda>kv. required_target objects ids (snd kv)) items).
           map_of (fst st) (pk c) = None)"
proof (induction items arbitrary: st)
  case Nil
  then show ?case by (simp add: List.map_filter_simps)
next
  case (Cons kv items)
  let ?rt = "\<lambda>kv. required_target objects ids (snd kv)"
  from Cons.prems obtain st1
    where e: "validate_map_entry py objects ids st (fst kv) (snd kv) = Inr st1"
    and l: "validate_map_loop py objects ids st1 items = Inr st'"
    by (auto split: sum.splits)
  from Cons.IH[OF l] have d: "distinct (List.map_filter ?rt items)"
    and n: "\<And>c. c \<in> set (List.map_filter ?rt items) \<Longrightarrow> map_of (fst st1) (pk c) = None"
    by auto
  have n0: "\<And>c. c \<in> set (List.map_filter ?rt items) \<Longrightarrow> map_of (fst st) (pk c) = None"
    using validate_map_entry_dom[OF e] n by blast
  show ?case
  proof (cases "required_target objects ids (snd kv)")
    case None
    with d n0 show ?thesis by (simp add: List.map_filter_simps)
  next
    case (Some c)
    from validate_map_entry_target[OF Some e]
    have c0: "map_of (fst st) (pk c) = None" and s1: "fst st1 = dict_set (fst st) (pk c) (fst kv)"
      by auto
    have "c \<notin> set (List.map_filter ?rt items)"
    proof
      assume "c \<in> set (List.map_filter ?rt items)"
      from n[OF this] show False by (simp add: s1 map_of_dict_set)
    qed
    with Some d n0 c0 show ?thesis by (auto simp: List.map_filter_simps)
  qed
qed


lemma new_name_error_message:
  "new_name_error d c k = Some e \<Longrightarrow> e \<noteq> ValidationError (already_assigned_message k' cn k0)"
  by (auto simp: new_name_error_def already_assigned_message_def
      split: option.splits if_splits json.splits)

lemma numeric_fields_message:
  "numeric_fields py c k d = Inl e \<Longrightarrow> e \<noteq> ValidationError (already_assigned_message k' cn k0)"
  by (auto simp: numeric_fields_def already_assigned_message_def Let_def
      split: option.splits if_splits)

lemma validate_map_entry_other_message:
  assumes "\<And>c. required_target objects ids v = Some c \<Longrightarrow> map_of (fst st) (pk c) = None"
  shows "validate_map_entry py objects ids st k v
           \<noteq> Inl (ValidationError (already_assigned_message k' cn k0))"
proof (cases v)
  case (JDict d)
  show ?thesis
  proof (cases "DataColumnType_get objects (dict_get d ''column_type'' JNull)")
    case None
    then show ?thesis
      by (simp add: JDict validate_map_entry_def Let_def already_assigned_message_def)
  next
    case (Some c)
    have "required_conflict ids (fst st) c k = None"
    proof (cases "pk c \<in> set ids")
      case True
      with Some have "required_target objects ids v = Some c"
        by (simp add: JDict required_target_JDict)
      from assms[OF this] True show ?thesis by (simp add: required_conflict_def)
    next
      case False
      then show ?thesis by (simp add: required_conflict_def)
    qed
    then show ?thesis
      unfolding JDict validate_map_entry_JDict[OF Some]
      using new_name_error_message[of d c k _ k' cn k0]
        numeric_fields_message[of py c k d _ k' cn k0]
      by (auto split: option.splits sum.splits)
  qed
qed (simp_all add: validate_map_entry_def Let_def already_assigned_message_def)

text \<open>Without a required column-type targeted twice, the loop never raises the conflict error.\<close>

lemma validate_map_loop_other_message:
  assumes "distinct (List.map_filter (\<lambda>kv. required_target objects ids (snd kv)) items)"
    and "\<And>c. c \<in> set (List.map_filter (\<lambda>kv. required_target objects ids (snd kv)) items)
           \<Longrightarrow> map_of (fst st) (pk c) = None"
  shows "validate_map_loop py objects ids st items
           \<noteq> Inl (ValidationError (already_assigned_message k' cn k0))"
  using assms
proof (induction items arbitrary: st)
  case Nil
  then show ?case by simp
next
  case (Cons kv items)
  let ?rt = "\<lambda>kv. required_target objects ids (snd kv)"
  have head: "\<And>c. required_target objects ids (snd kv) = Some c \<Longrightarrow> map_of (fst st) (pk c) = None"
    using Cons.prems(2) by (simp add: List.map_filter_simps)
  have e_ne: "validate_map_entry py objects ids st (fst kv) (snd kv)
                \<noteq> Inl (ValidationError (already_assigned_message k' cn k0))"
    by (rule validate_map_entry_other_message) (rule head)
  show ?case
  proof (cases "validate_map_entry py objects ids st (fst kv) (snd kv)")
    case (Inl e)
    with e_ne show ?thesis by simp
  next
    case (Inr st1)
    have d: "distinct (List.map_filter ?rt items)"
      using Cons.prems(1) by (simp add: List.map_filter_simps split: option.splits)
    have n: "map_of (fst st1) (pk c') = None" if c': "c' \<in> set (List.map_filter ?rt items)" for c'
    proof (cases "required_target objects ids (snd kv)")
      case None
      have "map_of (fst st) (pk c') = None"
        using Cons.prems(2) c' None by (simp add: List.map_filter_simps)
      with validate_map_entry_no_target[OF None Inr] show ?thesis by simp
    next
      case (Some c)
      have ne: "c' \<noteq> c"
        using Cons.prems(1) c' Some by (auto simp: List.map_filter_simps)
      obtain kv' where "kv' \<in> set items" and t': "required_target objects ids (snd kv') = Some c'"
        using c' by (auto simp: List.map_filter_def)
      have "pk c' \<noteq> pk c"
        using required_target_pk_inj[OF t' Some] ne by blast
      moreover have "map_of (fst st) (pk c') = None"
        using Cons.prems(2) c' Some by (simp add: List.map_filter_simps)
      ultimately show ?thesis
        using validate_map_entry_target[OF Some Inr] by (simp add: map_of_dict_set)
    qed
    from Cons.IH[OF d n] Inr show ?thesis by simp
  qed
qed








text \<open>
  C6 (as amended). A required column-type may be targeted by at most one raw column.
  A map in which two raw columns target the same required column-type is always
  rejected. When the columns before the second of them pass validation, the error is the
  one whose message names the second column, the column-type and the column the
  column-type was first assigned to. A map in which no required column-type is targeted
  twice never gets that error.
\<close>

theorem C6_required_column_type_assigned_once:
  "(\<not> distinct (required_targets objects items)
      \<longrightarrow> (\<exists>e. ColumnMappingSerializer_validate_map py objects (JDict items) = Inl e))
   \<and> (ColumnMappingSerializer_validate_map py objects (JDict pre) = Inr ok
        \<and> (col_a, entry_a) \<in> set pre
        \<and> required_target objects (required_column_ids objects) entry_a = Some c
        \<and> required_target objects (required_column_ids objects) entry_b = Some c
      \<longrightarrow> ColumnMappingSerializer_validate_map py objects (JDict (pre @ (col_b, entry_b) # post))
            = Inl (ValidationError (already_assigned_message col_b (name c) col_a)))
   \<and> (distinct (required_targets objects items)
      \<longrightarrow> ColumnMappingSerializer_validate_map py objects (JDict items)
            \<noteq> Inl (ValidationError (already_assigned_message k cn k0)))"
proof (intro conjI impI)
  let ?ids = "required_column_ids objects"
  assume nd: "\<not> distinct (required_targets objects items)"
  show "\<exists>e. ColumnMappingSerializer_validate_map py objects (JDict items) = Inl e"
  proof (cases "validate_map_loop py objects ?ids ([], []) items")
    case (Inl e)
    then show ?thesis by (simp add: ColumnMappingSerializer_validate_map_def)
  next
    case (Inr st)
    from validate_map_loop_distinct[OF Inr] nd show ?thesis
      by (simp add: required_targets_def)
  qed
next
  let ?ids = "required_column_ids objects"
  assume a: "ColumnMappingSerializer_validate_map py objects (JDict pre) = Inr ok
      \<and> (col_a, entry_a) \<in> set pre
      \<and> required_target objects ?ids entry_a = Some c
      \<and> required_target objects ?ids entry_b = Some c"
  then obtain st where st: "validate_map_loop py objects ?ids ([], []) pre = Inr st"
    by (auto simp: ColumnMappingSerializer_validate_map_def split: sum.splits)
  from a have "map_of (fst st) (pk c) = Some col_a"
    using validate_map_loop_records[OF st] by blast
  with a have "validate_map_entry py objects ?ids st col_b entry_b
                 = Inl (ValidationError (already_assigned_message col_b (name c) col_a))"
    using entry_conflict by blast
  then show "ColumnMappingSerializer_validate_map py objects (JDict (pre @ (col_b, entry_b) # post))
               = Inl (ValidationError (already_assigned_message col_b (name c) col_a))"
    by (simp add: ColumnMappingSerializer_validate_map_def validate_map_loop_append st)
next
  let ?ids = "required_column_ids objects"
  assume d: "distinct (required_targets objects items)"
  have "validate_map_loop py objects ?ids ([], []) items
          \<noteq> Inl (ValidationError (already_assigned_message k cn k0))"
    by (rule validate_map_loop_other_message) (use d in \<open>simp_all add: required_targets_def\<close>)
  then show "ColumnMappingSerializer_validate_map py objects (JDict items)
               \<noteq> Inl (ValidationError (already_assigned_message k cn k0))"
    by (auto simp: ColumnMappingSerializer_validate_map_def split: sum.splits)
qed

theorem C6_required_column_type_witness:
  "\<not> distinct (required_targets example_column_types
        [(''a'', JDict [(''column_type'', JInt 1)]), (''b'', JDict [(''column_type'', JInt 1)])])
   \<and> ColumnMappingSerializer_validate_map example_builtins example_column_types
        (JDict [(''a'', JDict [(''column_type'', JInt 1)])])
      = Inr (JDict [(''a'', JDict [(''column_type'', JInt 1), (''multiplier'', JFloat 1),
                                   (''addition'', JFloat 0)])])
   \<and> ColumnMappingSerializer_validate_map example_builtins example_column_types
        (JDict [(''a'', JDict [(''column_type'', JInt 1)]), (''b'', JDict [(''column_type'', JInt 1)])])
      = Inl (ValidationError (already_assigned_message ''b'' ''Voltage'' ''a''))
   \<and> distinct (required_targets example_column_types
        [(''a'', JDict [(''column_type'', JInt 1)])])
   \<and> ColumnMappingSerializer_validate_map example_builtins example_column_types
        (JDict [(''a'', JDict [(''column_type'', JInt 1)])])
      \<noteq> Inl (ValidationError (already_assigned_message ''b'' ''Voltage'' ''a''))"
proof -
  let ?a = "(''a'', JDict [(''column_type'', JInt 1)]) :: string \<times> int json"
  let ?b = "(''b'', JDict [(''column_type'', JInt 1)]) :: string \<times> int json"
  let ?c = "\<lparr> pk = JInt 1, name = ''Voltage'', is_required = True, data_type = ''float'' \<rparr>
              :: int DataColumnType"
  have rt: "required_target example_column_types (required_column_ids example_column_types)
              (JDict [(''column_type'', JInt 1)]) = Some ?c"
    by (simp add: required_target_def required_column_ids_def example_column_types_def
        DataColumnType_get_def dict_get_def)
  have two: "\<not> distinct (required_targets example_column_types [?a, ?b])"
    by (simp add: required_targets_def rt List.map_filter_simps)
  have one: "distinct (required_targets example_column_types [?a])"
    by (simp add: required_targets_def rt List.map_filter_simps)
  have ok: "ColumnMappingSerializer_validate_map example_builtins example_column_types
              (JDict [?a])
            = Inr (JDict [(''a'', JDict [(''column_type'', JInt 1), (''multiplier'', JFloat 1),
                                         (''addition'', JFloat 0)])])"
    by (simp add: ColumnMappingSerializer_validate_map_def validate_map_entry_def
        required_column_ids_def example_column_types_def example_builtins_def
        DataColumnType_get_def dict_get_def required_conflict_def new_name_error_def
        numeric_fields_def type_fn_def)
  have msg: "ColumnMappingSerializer_validate_map example_builtins example_column_types
               (JDict ([?a] @ ?b # []))
             = Inl (ValidationError (already_assigned_message ''b'' (name ?c) ''a''))"
    using C6_required_column_type_assigned_once
            [where py = example_builtins and objects = example_column_types
               and pre = "[?a]" and col_a = "''a''" and entry_a = "snd ?a" and c = ?c
               and entry_b = "snd ?b" and col_b = "''b''" and post = "[]"]
          ok rt
    by simp
  have other: "ColumnMappingSerializer_validate_map example_builtins example_column_types
                 (JDict [?a])
               \<noteq> Inl (ValidationError (already_assigned_message ''b'' ''Voltage'' ''a''))"
    using C6_required_column_type_assigned_once
            [where py = example_builtins and objects = example_column_types
               and items = "[?a]"] one
    by blast
  from two ok msg one other show ?thesis by simp
qed

text \<open>
  The error is not always the one that names both columns: validation stops at the first
  error of the map. Here the columns \<open>a\<close> and \<open>b\<close> target the same required column-type,
  and the map is rejected because \<open>a\<close> renames a required column; the message names
  neither \<open>b\<close> nor the column-type.
\<close>

theorem C6_conflict_message_counterexample:
  "\<not> distinct (required_targets example_column_types
        [(''a'', JDict [(''column_type'', JInt 1), (''new_name'', JStr ''x'')]),
         (''b'', JDict [(''column_type'', JInt 1)])])
   \<and> ColumnMappingSerializer_validate_map example_builtins example_column_types
        (JDict [(''a'', JDict [(''column_type'', JInt 1), (''new_name'', JStr ''x'')]),
                (''b'', JDict [(''column_type'', JInt 1)])])
      = Inl (ValidationError
          (''Column '' @ quoted ''a''
             @ '' is one of the core required columns and cannot be renamed''))
   \<and> ColumnMappingSerializer_validate_map example_builtins example_column_types
        (JDict [(''a'', JDict [(''column_type'', JInt 1), (''new_name'', JStr ''x'')]),
                (''b'', JDict [(''column_type'', JInt 1)])])
      \<noteq> Inl (ValidationError (already_assigned_message ''b'' ''Voltage'' ''a''))"
  by (simp add: ColumnMappingSerializer_validate_map_def validate_map_entry_def
      required_column_ids_def example_column_types_def example_builtins_def
      DataColumnType_get_def dict_get_def required_conflict_def new_name_error_def
      numeric_fields_def type_fn_def required_targets_def required_target_def
      List.map_filter_simps already_assigned_message_def quoted_def)




section \<open>Properties of the upload\<close>

lemma find_save_row:
  "find (\<lambda>r. file_id r = i) (save_row rows f)
     = (if file_id f = i then Some f else find (\<lambda>r. file_id r = i) rows)"
  by (induction rows) auto

lemma get_file_save:
  "get_file (save w f) i = (if file_id f = i then Some f else get_file w i)"
  by (simp add: get_file_def save_def find_save_row)

lemma get_file_unlink: "get_file (unlink p w) i = get_file w i"
  by (simp add: get_file_def unlink_def)

lemma temp_files_save: "temp_files (save w f) = temp_files w"
  by (simp add: save_def)

lemma store_partitions_temp:
  "temp_files (fst (store_partitions c w fid i ps)) = temp_files w"
  by (induction c w fid i ps rule: store_partitions.induct) (simp_all split: option.splits)

lemma store_partitions_files:
  "observed_files (fst (store_partitions c w fid i ps)) = observed_files w"
  by (induction c w fid i ps rule: store_partitions.induct) (simp_all split: option.splits)


lemma apply_mapping_temp:
  "temp_files (fst (apply_mapping c w f m)) = temp_files w"
  by (simp add: apply_mapping_def Let_def split_beta temp_files_save store_partitions_temp
      split: sum.split option.split)

lemma apply_mapping_file_id:
  "(case snd (apply_mapping c w f m) of
      Inl raised \<Rightarrow> file_id (fst raised) = file_id f
    | Inr f' \<Rightarrow> file_id f' = file_id f)"
  by (simp add: apply_mapping_def Let_def split_beta split: sum.split option.split)

lemma finish_upload_temp:
  "temp_files (fst (finish_upload c w f m_opt)) = temp_files w"
  by (simp add: finish_upload_def Let_def split_beta temp_files_save apply_mapping_temp
      split: sum.split option.split)

lemma finish_upload_file_id:
  "(case snd (finish_upload c w f m_opt) of
      Inl raised \<Rightarrow> file_id (fst raised) = file_id f
    | Inr f' \<Rightarrow> file_id f' = file_id f)"
proof (cases m_opt)
  case None
  then show ?thesis by (simp add: finish_upload_def Let_def)
next
  case (Some m)
  with apply_mapping_file_id[where c = c and w = w and f = f and m = m] show ?thesis
    by (auto simp: finish_upload_def split_beta split: sum.splits)
qed

lemma try_block_temp:
  "temp_files (fst (try_block c w target_file m_opt)) = temp_files w"
  by (simp add: try_block_def Let_def split_beta temp_files_save finish_upload_temp
      split: sum.split option.split)

text \<open>An exception raised once a file is bound leaves that file in the variable.\<close>

lemma try_block_raised:
  assumes "snd (try_block c w target_file m_opt) = Inl raised"
    and "bound_file c target_file = Some i"
  shows "\<exists>f. fst raised = Some f \<and> file_id f = i"
proof -
  from assms(2) obtain s where s: "summarise c = Inr s"
    by (auto simp: bound_file_def split: sum.splits)
  show ?thesis
  proof (cases target_file)
    case (Some f)
    with assms(2) s have i: "file_id f = i" by (simp add: bound_file_def)
    let ?m = "case m_opt of None \<Rightarrow> mapping f | Some m \<Rightarrow> Some m"
    show ?thesis
    proof (cases "summary f \<noteq> s")
      case True
      with assms(1) s Some i show ?thesis by (auto simp: try_block_def)
    next
      case False
      with assms(1) s Some finish_upload_file_id[where c = c and w = w and f = f and m_opt = ?m] i show ?thesis
        by (auto simp: try_block_def split_beta split: sum.splits)
    qed
  next
    case None
    with assms(2) s obtain new where new: "created c = Inr new" and i: "fst new = i"
      by (auto simp: bound_file_def split: sum.splits)
    let ?f = "\<lparr> file_id = fst new, state = snd new, summary = s, mapping = None, png = None \<rparr>"
    from assms(1) s None new finish_upload_file_id[where c = c and w = "save w ?f" and f = ?f and m_opt = m_opt] i show ?thesis
      by (auto simp: try_block_def split_beta Let_def split: sum.splits)
  qed
qed

lemma try_block_unbound:
  assumes "bound_file c target_file = None"
  shows "\<exists>e. try_block c w target_file m_opt = (w, Inl (None, e))"
  using assms by (auto simp: bound_file_def try_block_def split: sum.splits option.splits)




text \<open>
  C2 (as amended). A second-stage upload whose summary differs from the stored summary
  of the target file raises a validation error, and the \<open>except\<close> clause of \<open>create\<close>
  has by then set the target file to IMPORT_FAILED: the check is made after
  \<open>observed_file = target_file\<close>. Nothing else of the file changes, nor any other file,
  nor any partition.
\<close>

theorem C2_summary_mismatch_marks_file_failed:
  "summarise c = Inr s \<and> summary f \<noteq> s \<longrightarrow>
     snd (ObservedFileCreateSerializer_create c w (Some f) m_opt)
       = Inl (ValidationError
           (''Error processing file: ''
              @ ErrorDetail_str ''Summary does not match existing file''))
     \<and> get_file (fst (ObservedFileCreateSerializer_create c w (Some f) m_opt)) (file_id f)
         = Some (f\<lparr> state := IMPORT_FAILED \<rparr>)
     \<and> (\<forall>i. i \<noteq> file_id f \<longrightarrow>
           get_file (fst (ObservedFileCreateSerializer_create c w (Some f) m_opt)) i
             = get_file w i)
     \<and> parquet_partitions (fst (ObservedFileCreateSerializer_create c w (Some f) m_opt))
         = parquet_partitions w"
proof (intro impI)
  assume a: "summarise c = Inr s \<and> summary f \<noteq> s"
  let ?w0 = "w\<lparr> temp_files := insert (temp_name c) (temp_files w) \<rparr>"
  have t: "try_block c ?w0 (Some f) m_opt
             = (?w0, Inl (Some f, ErrorDetail_str ''Summary does not match existing file''))"
    using a by (simp add: try_block_def)
  have r: "ObservedFileCreateSerializer_create c w (Some f) m_opt
             = (unlink (temp_name c) (save ?w0 (f\<lparr> state := IMPORT_FAILED \<rparr>)),
                Inl (ValidationError
                  (''Error processing file: ''
                     @ ErrorDetail_str ''Summary does not match existing file'')))"
    by (simp add: ObservedFileCreateSerializer_create_def t)
  have g: "\<And>i. get_file ?w0 i = get_file w i" by (simp add: get_file_def)
  show "snd (ObservedFileCreateSerializer_create c w (Some f) m_opt)
       = Inl (ValidationError
           (''Error processing file: ''
              @ ErrorDetail_str ''Summary does not match existing file''))
     \<and> get_file (fst (ObservedFileCreateSerializer_create c w (Some f) m_opt)) (file_id f)
         = Some (f\<lparr> state := IMPORT_FAILED \<rparr>)
     \<and> (\<forall>i. i \<noteq> file_id f \<longrightarrow>
           get_file (fst (ObservedFileCreateSerializer_create c w (Some f) m_opt)) i
             = get_file w i)
     \<and> parquet_partitions (fst (ObservedFileCreateSerializer_create c w (Some f) m_opt))
         = parquet_partitions w"
    unfolding r
  proof (intro conjI allI impI)
    fix i assume "i \<noteq> file_id f"
    then show "get_file (fst (unlink (temp_name c) (save ?w0 (f\<lparr> state := IMPORT_FAILED \<rparr>)),
                 Inl (ValidationError
                   (''Error processing file: ''
                      @ ErrorDetail_str ''Summary does not match existing file'')))) i
               = get_file w i"
      by (simp add: get_file_unlink get_file_save g)
  qed (simp_all add: get_file_unlink get_file_save, simp add: unlink_def save_def)
qed

theorem C2_summary_mismatch_witness:
  "summarise (example_calls (Inr ''columns: a, c'')) = Inr ''columns: a, c''
   \<and> summary \<lparr> file_id = 1, state = AWAITING_MAP_ASSIGNMENT, summary = ''columns: a, b'',
             mapping = None, png = None \<rparr> \<noteq> ''columns: a, c''
   \<and> snd (ObservedFileCreateSerializer_create (example_calls (Inr ''columns: a, c''))
            example_world (Some \<lparr> file_id = 1, state = AWAITING_MAP_ASSIGNMENT, summary = ''columns: a, b'',
             mapping = None, png = None \<rparr>) (Some 7))
       = Inl (ValidationError
           (''Error processing file: ''
              @ ErrorDetail_str ''Summary does not match existing file''))
   \<and> get_file (fst (ObservedFileCreateSerializer_create (example_calls (Inr ''columns: a, c''))
                      example_world (Some \<lparr> file_id = 1, state = AWAITING_MAP_ASSIGNMENT, summary = ''columns: a, b'',
             mapping = None, png = None \<rparr>) (Some 7))) 1
       = Some \<lparr> file_id = 1, state = IMPORT_FAILED, summary = ''columns: a, b'',
                mapping = None, png = None \<rparr>"
  using C2_summary_mismatch_marks_file_failed
          [where c = "example_calls (Inr ''columns: a, c'')" and s = "''columns: a, c''"
             and f = "\<lparr> file_id = 1, state = AWAITING_MAP_ASSIGNMENT, summary = ''columns: a, b'',
             mapping = None, png = None \<rparr>" and w = example_world and m_opt = "Some 7"]
  by (simp add: example_calls_def)

text \<open>
  The state of the target file does not stay AWAITING_MAP_ASSIGNMENT: file 1 waits for a
  mapping, the second upload has another summary, and afterwards file 1 is
  IMPORT_FAILED.
\<close>

theorem C2_state_unchanged_counterexample:
  "get_file example_world 1 = Some \<lparr> file_id = 1, state = AWAITING_MAP_ASSIGNMENT, summary = ''columns: a, b'',
             mapping = None, png = None \<rparr>
   \<and> state \<lparr> file_id = 1, state = AWAITING_MAP_ASSIGNMENT, summary = ''columns: a, b'',
             mapping = None, png = None \<rparr> = AWAITING_MAP_ASSIGNMENT
   \<and> map_option state
       (get_file (fst (ObservedFileCreateSerializer_create
                         (example_calls (Inr ''columns: a, c''))
                         example_world (Some \<lparr> file_id = 1, state = AWAITING_MAP_ASSIGNMENT, summary = ''columns: a, b'',
             mapping = None, png = None \<rparr>) (Some 7))) 1)
       = Some IMPORT_FAILED
   \<and> IMPORT_FAILED \<noteq> AWAITING_MAP_ASSIGNMENT"
  by (simp add: ObservedFileCreateSerializer_create_def try_block_def finish_upload_def
      apply_mapping_def example_calls_def example_world_def save_def unlink_def get_file_def
      ErrorDetail_str_def quoted_def bound_file_def Let_def endswith_def)

text \<open>
  C5 (as amended). On every exit path of \<open>create\<close> the temporary copy of the upload is
  removed, and every failure is surfaced as a validation error. A failure after the
  ObservedFile has been resolved (second-stage upload, once the upload is summarised)
  or created (first upload) leaves that file in IMPORT_FAILED. A failure before that
  leaves the ObservedFile table as it was.
\<close>

theorem C5_failed_upload:
  "temp_files (fst (ObservedFileCreateSerializer_create c w target_file m_opt))
     = temp_files w - {temp_name c}
   \<and> (\<forall>e. snd (ObservedFileCreateSerializer_create c w target_file m_opt) = Inl e \<longrightarrow>
         (\<exists>m. e = ValidationError (''Error processing file: '' @ m)))
   \<and> (\<forall>e i. snd (ObservedFileCreateSerializer_create c w target_file m_opt) = Inl e
         \<and> bound_file c target_file = Some i \<longrightarrow>
         (\<exists>f. get_file (fst (ObservedFileCreateSerializer_create c w target_file m_opt)) i
                 = Some f
              \<and> state f = IMPORT_FAILED))
   \<and> (bound_file c target_file = None \<longrightarrow>
         (\<exists>e. snd (ObservedFileCreateSerializer_create c w target_file m_opt) = Inl e)
         \<and> observed_files (fst (ObservedFileCreateSerializer_create c w target_file m_opt))
             = observed_files w)"
proof -
  let ?w0 = "w\<lparr> temp_files := insert (temp_name c) (temp_files w) \<rparr>"
  let ?t = "try_block c ?w0 target_file m_opt"
  let ?r = "ObservedFileCreateSerializer_create c w target_file m_opt"
  have create: "?r =
      (case snd ?t of
         Inr f \<Rightarrow> (unlink (temp_name c) (fst ?t), Inr f)
       | Inl raised \<Rightarrow>
           (unlink (temp_name c)
              (case fst raised of
                 Some f \<Rightarrow> save (fst ?t) (f\<lparr> state := IMPORT_FAILED \<rparr>)
               | None \<Rightarrow> fst ?t),
            Inl (ValidationError (''Error processing file: '' @ snd raised))))"
    by (simp add: ObservedFileCreateSerializer_create_def split_beta split: sum.split)
  have tt: "temp_files (fst ?t) = insert (temp_name c) (temp_files w)"
    by (simp add: try_block_temp)
  have p1: "temp_files (fst ?r) = temp_files w - {temp_name c}"
    unfolding create using tt
    by (simp add: unlink_def temp_files_save split: sum.split option.split)
  have p2: "\<exists>m. e = ValidationError (''Error processing file: '' @ m)" if "snd ?r = Inl e" for e
    using that unfolding create by (auto split: sum.splits)
  have p3: "\<exists>f. get_file (fst ?r) i = Some f \<and> state f = IMPORT_FAILED"
    if "snd ?r = Inl e" "bound_file c target_file = Some i" for e i
  proof -
    from that(1) obtain raised where raised: "snd ?t = Inl raised"
      unfolding create by (auto split: sum.splits)
    from try_block_raised[OF raised that(2)]
    obtain f where f: "fst raised = Some f" "file_id f = i" by blast
    show ?thesis
      unfolding create using raised f
      by (simp add: get_file_unlink get_file_save)
  qed
  have p4: "(\<exists>e. snd ?r = Inl e) \<and> observed_files (fst ?r) = observed_files w"
    if "bound_file c target_file = None"
  proof -
    from try_block_unbound[OF that, of ?w0 m_opt]
    obtain e where "?t = (?w0, Inl (None, e))" by blast
    then show ?thesis unfolding create by (simp add: unlink_def)
  qed
  from p1 p2 p3 p4 show ?thesis by blast
qed

theorem C5_failed_upload_witness:
  "temp_files (fst (ObservedFileCreateSerializer_create (example_calls (Inr ''columns: a, b''))
                      example_world (Some \<lparr> file_id = 1, state = AWAITING_MAP_ASSIGNMENT, summary = ''columns: a, b'',
             mapping = None, png = None \<rparr>) (Some 8)))
     = {}
   \<and> snd (ObservedFileCreateSerializer_create (example_calls (Inr ''columns: a, b''))
            example_world (Some \<lparr> file_id = 1, state = AWAITING_MAP_ASSIGNMENT, summary = ''columns: a, b'',
             mapping = None, png = None \<rparr>) (Some 8))
       = Inl (ValidationError
           (''Error processing file: ''
              @ ErrorDetail_str ''Mapping is not applicable to this file''))
   \<and> bound_file (example_calls (Inr ''columns: a, b'')) (Some \<lparr> file_id = 1, state = AWAITING_MAP_ASSIGNMENT, summary = ''columns: a, b'',
             mapping = None, png = None \<rparr>) = Some 1
   \<and> map_option state
       (get_file (fst (ObservedFileCreateSerializer_create
                         (example_calls (Inr ''columns: a, b''))
                         example_world (Some \<lparr> file_id = 1, state = AWAITING_MAP_ASSIGNMENT, summary = ''columns: a, b'',
             mapping = None, png = None \<rparr>) (Some 8))) 1)
       = Some IMPORT_FAILED
   \<and> bound_file (example_calls (Inl ''no parser'')) (Some \<lparr> file_id = 1, state = AWAITING_MAP_ASSIGNMENT, summary = ''columns: a, b'',
             mapping = None, png = None \<rparr>) = None
   \<and> observed_files (fst (ObservedFileCreateSerializer_create
                             (example_calls (Inl ''no parser''))
                             example_world (Some \<lparr> file_id = 1, state = AWAITING_MAP_ASSIGNMENT, summary = ''columns: a, b'',
             mapping = None, png = None \<rparr>) (Some 7)))
       = observed_files example_world"
  using C5_failed_upload
          [where c = "example_calls (Inr ''columns: a, b'')" and w = example_world
             and target_file = "Some \<lparr> file_id = 1, state = AWAITING_MAP_ASSIGNMENT, summary = ''columns: a, b'',
             mapping = None, png = None \<rparr>" and m_opt = "Some 8"]
        C5_failed_upload
          [where c = "example_calls (Inl ''no parser'')" and w = example_world
             and target_file = "Some \<lparr> file_id = 1, state = AWAITING_MAP_ASSIGNMENT, summary = ''columns: a, b'',
             mapping = None, png = None \<rparr>" and m_opt = "Some 7"]
  by (simp add: ObservedFileCreateSerializer_create_def try_block_def finish_upload_def
      apply_mapping_def example_calls_def example_world_def save_def unlink_def get_file_def
      ErrorDetail_str_def quoted_def bound_file_def Let_def endswith_def)

text \<open>
  An exception does not always leave the ObservedFile in IMPORT_FAILED: when the
  second upload cannot be summarised, \<open>observed_file\<close> is still \<open>None\<close> in the \<open>except\<close>
  clause, and the target file stays as it was.
\<close>

theorem C5_import_failed_counterexample:
  "snd (ObservedFileCreateSerializer_create (example_calls (Inl ''no parser''))
          example_world (Some \<lparr> file_id = 1, state = AWAITING_MAP_ASSIGNMENT, summary = ''columns: a, b'',
             mapping = None, png = None \<rparr>) (Some 7))
     = Inl (ValidationError ''Error processing file: no parser'')
   \<and> map_option state
       (get_file (fst (ObservedFileCreateSerializer_create
                         (example_calls (Inl ''no parser''))
                         example_world (Some \<lparr> file_id = 1, state = AWAITING_MAP_ASSIGNMENT, summary = ''columns: a, b'',
             mapping = None, png = None \<rparr>) (Some 7))) 1)
       = Some AWAITING_MAP_ASSIGNMENT
   \<and> AWAITING_MAP_ASSIGNMENT \<noteq> IMPORT_FAILED"
  by (simp add: ObservedFileCreateSerializer_create_def try_block_def finish_upload_def
      apply_mapping_def example_calls_def example_world_def save_def unlink_def get_file_def
      ErrorDetail_str_def quoted_def bound_file_def Let_def endswith_def)

section \<open>Properties of the storage quota\<close>





end
